theory Spec2Isabelle
  imports
    Complex_Main
    "HOL-Library.AList"
    "HOL-Library.Char_ord"
    "HOL-Library.List_Lexorder"
    "HOL-Library.Multiset"
begin

section \<open>Python values, errors and built-ins\<close>

text \<open>
  The tracker is Python. Its exceptions become values of \<open>error\<close>, and a function that
  may raise returns \<open>error + 'a\<close> with \<open>Inl\<close> for the exception. Python's \<open>float\<close> is
  idealised as \<open>real\<close>: the theory speaks about which records are summed, which guards
  fire and which keys a dictionary has, not about binary rounding, and \<open>nan\<close> and
  \<open>inf\<close> are outside the model. Timestamps are ISO-8601 text, \<open>None\<close> when missing.
\<close>

datatype error =
  ValidationError | KeyError | ValueError | TypeError | ZeroDivisionError | NameError

definition ebind :: "error + 'a \<Rightarrow> ('a \<Rightarrow> error + 'b) \<Rightarrow> error + 'b" where
  "ebind m f = (case m of Inl e \<Rightarrow> Inl e | Inr x \<Rightarrow> f x)"

text \<open>\<open>list.index(x)\<close>: the first position of \<open>x\<close>, ValueError when absent.\<close>

fun py_index :: "'a list \<Rightarrow> 'a \<Rightarrow> error + nat" where
  "py_index [] x = Inl ValueError"
| "py_index (y # ys) x =
     (if y = x then Inr 0
      else (case py_index ys x of Inl e \<Rightarrow> Inl e | Inr i \<Rightarrow> Inr (Suc i)))"

text \<open>True division \<open>a / b\<close>: ZeroDivisionError on a zero divisor.\<close>

definition py_truediv :: "real \<Rightarrow> real \<Rightarrow> error + real" where
  "py_truediv a b = (if b = 0 then Inl ZeroDivisionError else Inr (a / b))"

text \<open>\<open>d.get(k, dflt)\<close> returns \<open>dflt\<close> for a missing key.\<close>

definition py_get :: "('k \<times> 'v) list \<Rightarrow> 'k \<Rightarrow> 'v \<Rightarrow> 'v" where
  "py_get d k dflt = (case map_of d k of None \<Rightarrow> dflt | Some v \<Rightarrow> v)"

section \<open>database.py: the SQLAlchemy models\<close>

text \<open>
  \<open>app.py\<close> binds \<open>VIDEO_STATUSES = Video.VALID_STATUSES\<close>, \<open>VIDEO_TYPES\<close>, \<open>COST_TYPES\<close> and
  \<open>CURRENCIES\<close> to the class constants of \<open>database.py\<close>; the constants carry those names
  here. \<open>models.py\<close> declares class constants of the same Python names with other
  contents; they follow in the next section as \<open>VALID_STATUSES\<close>, \<open>VALID_TYPES\<close>.
\<close>

definition VIDEO_STATUSES :: "string list" where
  "VIDEO_STATUSES =
     [''Conceptualization & Script'', ''VO'', ''Visuals'', ''Animations & Editing'', ''Final'']"

definition VIDEO_TYPES :: "string list" where
  "VIDEO_TYPES = [''Brand'', ''System'', ''Testimonial'', ''About'']"

definition TESTIMONIAL_STATUSES :: "string list" where
  "TESTIMONIAL_STATUSES =
     [''Conceptualization & Script'', ''Avatar Creation'', ''Avatar Video Generation'',
      ''VO'', ''Visuals'', ''Animations & Editing'', ''Final'']"



record db_video =
  dv_id :: string
  dv_type :: string
  dv_status :: string
  dv_created_at :: "string option"
  dv_updated_at :: "string option"

record db_cost =
  dc_id :: int
  dc_type :: string
  dc_name :: "string option"
  dc_amount :: real
  dc_currency :: string
  dc_notes :: string
  dc_created_at :: "string option"

text \<open>
  \<open>database.Video.get_progress_percentage\<close>. The \<open>try\<close> body may raise ValueError
  (\<open>index\<close>) or ZeroDivisionError (\<open>/\<close>); the handler catches ValueError only.
\<close>

definition db_get_progress_percentage :: "db_video \<Rightarrow> error + real" where
  "db_get_progress_percentage v =
     (let statuses = (if dv_type v = ''Testimonial'' then TESTIMONIAL_STATUSES
                      else VIDEO_STATUSES);
          body = ebind (py_index statuses (dv_status v)) (\<lambda>status_index.
                 ebind (py_truediv (real (status_index + 1)) (real (length statuses)))
                   (\<lambda>q. Inr (q * 100)))
      in case body of Inl ValueError \<Rightarrow> Inr 0 | r \<Rightarrow> r)"

section \<open>models.py: validated records\<close>

definition VALID_STATUSES :: "string list" where
  "VALID_STATUSES = [''Script'', ''VO'', ''Visuals'', ''Editing'', ''Final'']"

definition VALID_TYPES :: "string list" where
  "VALID_TYPES = [''Brand'', ''System'', ''Testimonial'']"

record video =
  video_id :: string
  video_type :: string
  video_status :: string
  video_created_at :: "string option"
  video_updated_at :: "string option"

text \<open>\<open>models.Video.get_progress_percentage\<close>: one list for every type.\<close>

definition get_progress_percentage :: "video \<Rightarrow> error + real" where
  "get_progress_percentage v =
     (let body = ebind (py_index VALID_STATUSES (video_status v)) (\<lambda>status_index.
                 ebind (py_truediv (real (status_index + 1)) (real (length VALID_STATUSES)))
                   (\<lambda>q. Inr (q * 100)))
      in case body of Inl ValueError \<Rightarrow> Inr 0 | r \<Rightarrow> r)"

text \<open>
  \<open>str.strip()\<close> removes leading and trailing whitespace. An Isabelle \<open>char\<close> is a byte, so
  the strings of the model are ASCII text and the whitespace is the ASCII whitespace of
  \<open>str.isspace\<close>: tab, line feed, vertical tab, form feed, carriage return, the four
  separators 28 to 31 and the space.
\<close>

definition py_isspace :: "char \<Rightarrow> bool" where
  "py_isspace c = (of_char c \<in> {9, 10, 11, 12, 13, 28, 29, 30, 31, 32 :: nat})"

definition py_strip :: "string \<Rightarrow> string" where
  "py_strip s = rev (dropWhile py_isspace (rev (dropWhile py_isspace s)))"

text \<open>
  \<open>round(x, ndigits)\<close> rounds to the nearest multiple of \<open>10 ^ -ndigits\<close>, a tie going to
  the even neighbour.
\<close>

definition py_round_int :: "real \<Rightarrow> int" where
  "py_round_int x =
     (let f = \<lfloor>x\<rfloor>; d = x - of_int f
      in if d < 1 / 2 then f else if 1 / 2 < d then f + 1
         else if even f then f else f + 1)"

definition py_round :: "real \<Rightarrow> nat \<Rightarrow> real" where
  "py_round x ndigits = of_int (py_round_int (x * 10 ^ ndigits)) / 10 ^ ndigits"

text \<open>
  Python binds the keyword arguments of a call to the parameters of the callee; a
  keyword that names no parameter raises TypeError before the body runs.
\<close>

definition py_bind_kwargs :: "string list \<Rightarrow> string list \<Rightarrow> error + unit" where
  "py_bind_kwargs params keywords =
     (if set keywords \<subseteq> set params then Inr () else Inl TypeError)"

subsection \<open>Video\<close>

text \<open>
  The constructor arguments are modelled at their annotated types (\<open>str\<close>), so the
  \<open>isinstance\<close> test of \<open>_validate_id\<close> is true. \<open>created_at\<close> and \<open>updated_at\<close> are column
  attributes that \<open>__init__\<close> does not assign: they read \<open>None\<close> on a new object.
\<close>

definition validate_id :: "string \<Rightarrow> error + string" where
  "validate_id i =
     (if i = [] then Inl ValidationError
      else let i' = py_strip i
           in if i' = [] then Inl ValidationError
              else if 100 < length i' then Inl ValidationError
              else Inr i')"

definition validate_type :: "string \<Rightarrow> error + string" where
  "validate_type t =
     (if t = [] \<or> t \<notin> set VALID_TYPES then Inl ValidationError else Inr t)"

definition validate_status :: "string \<Rightarrow> error + string" where
  "validate_status s =
     (if s = [] \<or> s \<notin> set VALID_STATUSES then Inl ValidationError else Inr s)"

definition Video_init :: "string \<Rightarrow> string \<Rightarrow> string \<Rightarrow> error + video" where
  "Video_init i t s =
     ebind (validate_id i) (\<lambda>i'.
     ebind (validate_type t) (\<lambda>t'.
     ebind (validate_status s) (\<lambda>s'.
       Inr \<lparr>video_id = i', video_type = t', video_status = s',
            video_created_at = None, video_updated_at = None\<rparr>)))"

text \<open>The parameters of \<open>Video.__init__(self, id, type, status='Script')\<close>.\<close>

definition Video_init_params :: "string list" where
  "Video_init_params = [''id'', ''type'', ''status'']"

text \<open>
  \<open>update_status\<close> validates first and assigns afterwards: when the validation raises,
  no field of the object has been written, so \<open>Inl\<close> stands for the unchanged object.
  \<open>now\<close> is \<open>datetime.now().isoformat()\<close>.
\<close>

definition update_status :: "string \<Rightarrow> video \<Rightarrow> string \<Rightarrow> error + video" where
  "update_status now v new_status =
     ebind (validate_status new_status) (\<lambda>s.
       Inr (v\<lparr>video_status := s, video_updated_at := Some now\<rparr>))"

definition is_completed :: "video \<Rightarrow> bool" where
  "is_completed v = (video_status v = ''Final'')"

text \<open>
  The storage dictionary of a video. Each key holds a value of the field's type;
  \<open>None\<close> stands for an absent key, and for \<open>created_at\<close> and \<open>updated_at\<close> also for a
  stored \<open>None\<close>, which \<open>data.get\<close> does not tell apart.
\<close>

record video_dict =
  vd_id :: "string option"
  vd_type :: "string option"
  vd_status :: "string option"
  vd_created_at :: "string option"
  vd_updated_at :: "string option"

definition Video_to_dict :: "video \<Rightarrow> video_dict" where
  "Video_to_dict v =
     \<lparr>vd_id = Some (video_id v), vd_type = Some (video_type v),
      vd_status = Some (video_status v), vd_created_at = video_created_at v,
      vd_updated_at = video_updated_at v\<rparr>"

text \<open>
  \<open>from_dict\<close> evaluates its five arguments (\<open>data['id']\<close> and \<open>data['type']\<close> raise
  KeyError on an absent key) and calls \<open>cls\<close> with the keywords \<open>id\<close>, \<open>type\<close>, \<open>status\<close>,
  \<open>created_at\<close>, \<open>updated_at\<close>.
\<close>

definition Video_from_dict :: "video_dict \<Rightarrow> error + video" where
  "Video_from_dict data =
     (case vd_id data of None \<Rightarrow> Inl KeyError | Some i \<Rightarrow>
      case vd_type data of None \<Rightarrow> Inl KeyError | Some t \<Rightarrow>
        let s = (case vd_status data of None \<Rightarrow> ''Script'' | Some s \<Rightarrow> s)
        in ebind (py_bind_kwargs Video_init_params
                    [''id'', ''type'', ''status'', ''created_at'', ''updated_at''])
             (\<lambda>_. Video_init i t s))"

subsection \<open>CostModel\<close>

definition COST_VALID_TYPES :: "string list" where
  "COST_VALID_TYPES = [''Tool'', ''Freelancer'', ''Other'']"

definition VALID_CURRENCIES :: "string list" where
  "VALID_CURRENCIES = [''USD'', ''PKR'']"

record cost =
  cost_id :: "int option"
  cost_type :: string
  cost_amount :: real
  cost_currency :: string
  cost_notes :: string
  cost_created_at :: "string option"

definition cost_validate_type :: "string \<Rightarrow> error + string" where
  "cost_validate_type t =
     (if t = [] \<or> t \<notin> set COST_VALID_TYPES then Inl ValidationError else Inr t)"

text \<open>
  \<open>_validate_amount\<close> on a number: \<open>float(amount)\<close> succeeds, then the two range checks
  and the rounding.
\<close>

definition validate_amount :: "real \<Rightarrow> error + real" where
  "validate_amount amount =
     (if amount < 0 then Inl ValidationError
      else if 1000000 < amount then Inl ValidationError
      else Inr (py_round amount 2))"

definition validate_currency :: "string \<Rightarrow> error + string" where
  "validate_currency c =
     (if c = [] \<or> c \<notin> set VALID_CURRENCIES then Inl ValidationError else Inr c)"

definition validate_notes :: "string \<Rightarrow> error + string" where
  "validate_notes notes =
     (if 500 < length notes then Inl ValidationError else Inr (py_strip notes))"

text \<open>
  \<open>CostModel.__init__\<close>, arguments at their annotated types; \<open>now\<close> is
  \<open>datetime.now().isoformat()\<close>, taken when \<open>created_at\<close> is \<open>None\<close> or empty.
\<close>

definition CostModel_init ::
  "string \<Rightarrow> int option \<Rightarrow> string \<Rightarrow> real \<Rightarrow> string \<Rightarrow> string \<Rightarrow> string option
     \<Rightarrow> error + cost" where
  "CostModel_init now i t amount currency notes created_at =
     ebind (cost_validate_type t) (\<lambda>t'.
     ebind (validate_amount amount) (\<lambda>a'.
     ebind (validate_currency currency) (\<lambda>c'.
     ebind (validate_notes notes) (\<lambda>n'.
       Inr \<lparr>cost_id = i, cost_type = t', cost_amount = a', cost_currency = c',
            cost_notes = n',
            cost_created_at =
              (case created_at of None \<Rightarrow> Some now
               | Some ts \<Rightarrow> if ts = [] then Some now else Some ts)\<rparr>))))"

definition CostModel_init_params :: "string list" where
  "CostModel_init_params = [''id'', ''type'', ''amount'', ''currency'', ''notes'', ''created_at'']"

record cost_dict =
  cd_id :: "int option"
  cd_type :: "string option"
  cd_amount :: "real option"
  cd_currency :: "string option"
  cd_notes :: "string option"
  cd_created_at :: "string option"

definition CostModel_to_dict :: "cost \<Rightarrow> cost_dict" where
  "CostModel_to_dict c =
     \<lparr>cd_id = cost_id c, cd_type = Some (cost_type c), cd_amount = Some (cost_amount c),
      cd_currency = Some (cost_currency c), cd_notes = Some (cost_notes c),
      cd_created_at = cost_created_at c\<rparr>"

definition CostModel_from_dict :: "string \<Rightarrow> cost_dict \<Rightarrow> error + cost" where
  "CostModel_from_dict now data =
     (case cd_type data of None \<Rightarrow> Inl KeyError | Some t \<Rightarrow>
      case cd_amount data of None \<Rightarrow> Inl KeyError | Some a \<Rightarrow>
        let currency = (case cd_currency data of None \<Rightarrow> ''USD'' | Some c \<Rightarrow> c);
            notes = (case cd_notes data of None \<Rightarrow> [] | Some n \<Rightarrow> n)
        in ebind (py_bind_kwargs CostModel_init_params
                    [''id'', ''type'', ''amount'', ''currency'', ''notes'', ''created_at''])
             (\<lambda>_. CostModel_init now (cd_id data) t a currency notes (cd_created_at data)))"

subsection \<open>The name VideoModel\<close>

text \<open>
  \<open>models.py\<close> reads attributes of a global name \<open>VideoModel\<close> in the bodies of
  \<open>get_status_distribution\<close>, \<open>get_type_distribution\<close>, \<open>get_videos\<close> and \<open>import_data\<close>.
  No statement of the module binds that name (the class is called \<open>Video\<close>, and nothing
  is imported under the name), so evaluating \<open>VideoModel.attr\<close> raises NameError whatever
  the attribute is. The result type is left open: no value is ever produced.
\<close>

definition VideoModel_attr :: "string \<Rightarrow> error + 'a" where
  "VideoModel_attr attr = Inl NameError"

section \<open>models.py: ProjectStats\<close>

text \<open>
  A Python dictionary whose keys are computed is an association list in insertion order:
  \<open>AList.update\<close> overwrites a present key in place and appends an absent one, as the
  assignment \<open>d[k] = v\<close> does. \<open>d[k] += x\<close> reads \<open>d[k]\<close> first and raises KeyError on an
  absent key.
\<close>

definition py_iadd :: "(string \<times> 'a::plus) list \<Rightarrow> string \<Rightarrow> 'a \<Rightarrow> error + (string \<times> 'a) list" where
  "py_iadd d k x =
     (case map_of d k of None \<Rightarrow> Inl KeyError
      | Some y \<Rightarrow> Inr (AList.update k (y + x) d))"

record project_stats =
  ps_videos :: "video list"
  ps_costs :: "cost list"
  ps_budget :: real

definition get_total_videos :: "project_stats \<Rightarrow> nat" where
  "get_total_videos ps = length (ps_videos ps)"

definition get_completed_videos :: "project_stats \<Rightarrow> nat" where
  "get_completed_videos ps = length (filter is_completed (ps_videos ps))"

definition get_pending_videos :: "project_stats \<Rightarrow> int" where
  "get_pending_videos ps = int (get_total_videos ps) - int (get_completed_videos ps)"

definition get_completion_rate :: "project_stats \<Rightarrow> real" where
  "get_completion_rate ps =
     (let total = get_total_videos ps
      in if total = 0 then 0
         else real (get_completed_videos ps) / real total * 100)"

fun status_loop :: "(string \<times> nat) list \<Rightarrow> video list \<Rightarrow> error + (string \<times> nat) list" where
  "status_loop distribution [] = Inr distribution"
| "status_loop distribution (v # vs) =
     (case py_iadd distribution (video_status v) 1 of
        Inl e \<Rightarrow> Inl e
      | Inr distribution' \<Rightarrow> status_loop distribution' vs)"

text \<open>
  The dictionary comprehension of \<open>get_status_distribution\<close> iterates over
  \<open>VideoModel.VALID_STATUSES\<close>, which is evaluated first.
\<close>

definition get_status_distribution :: "project_stats \<Rightarrow> error + (string \<times> nat) list" where
  "get_status_distribution ps =
     ebind (VideoModel_attr ''VALID_STATUSES'') (\<lambda>statuses.
       status_loop (map (\<lambda>status. (status, 0)) statuses) (ps_videos ps))"

fun type_loop :: "(string \<times> nat) list \<Rightarrow> video list \<Rightarrow> error + (string \<times> nat) list" where
  "type_loop distribution [] = Inr distribution"
| "type_loop distribution (v # vs) =
     (case py_iadd distribution (video_type v) 1 of
        Inl e \<Rightarrow> Inl e
      | Inr distribution' \<Rightarrow> type_loop distribution' vs)"

definition get_type_distribution :: "project_stats \<Rightarrow> error + (string \<times> nat) list" where
  "get_type_distribution ps =
     ebind (VideoModel_attr ''VALID_TYPES'') (\<lambda>types.
       type_loop (map (\<lambda>t. (t, 0)) types) (ps_videos ps))"

fun totals_loop :: "(string \<times> real) list \<Rightarrow> cost list \<Rightarrow> error + (string \<times> real) list" where
  "totals_loop totals [] = Inr totals"
| "totals_loop totals (c # cs) =
     (let totals1 = (if map_of totals (cost_currency c) = None
                     then AList.update (cost_currency c) 0 totals else totals)
      in case py_iadd totals1 (cost_currency c) (cost_amount c) of
           Inl e \<Rightarrow> Inl e
         | Inr totals2 \<Rightarrow> totals_loop totals2 cs)"

definition get_total_costs_by_currency :: "project_stats \<Rightarrow> error + (string \<times> real) list" where
  "get_total_costs_by_currency ps = totals_loop [] (ps_costs ps)"

fun cost_type_loop :: "(string \<times> real) list \<Rightarrow> cost list \<Rightarrow> error + (string \<times> real) list" where
  "cost_type_loop distribution [] = Inr distribution"
| "cost_type_loop distribution (c # cs) =
     (if cost_currency c = ''USD''
      then (case py_iadd distribution (cost_type c) (cost_amount c) of
              Inl e \<Rightarrow> Inl e
            | Inr distribution' \<Rightarrow> cost_type_loop distribution' cs)
      else cost_type_loop distribution cs)"

definition get_cost_distribution_by_type :: "project_stats \<Rightarrow> error + (string \<times> real) list" where
  "get_cost_distribution_by_type ps =
     cost_type_loop (map (\<lambda>t. (t, 0)) COST_VALID_TYPES) (ps_costs ps)"

record budget_status =
  bs_budget :: real
  bs_spent :: real
  bs_remaining :: real
  bs_percentage_used :: real
  bs_over_budget :: bool
  bs_near_budget :: bool

definition get_budget_status :: "project_stats \<Rightarrow> budget_status" where
  "get_budget_status ps =
     (let usd_spent = sum_list (map cost_amount
                        (filter (\<lambda>c. cost_currency c = ''USD'') (ps_costs ps)));
          remaining = ps_budget ps - usd_spent
      in \<lparr>bs_budget = ps_budget ps,
          bs_spent = usd_spent,
          bs_remaining = remaining,
          bs_percentage_used =
            (if 0 < ps_budget ps then usd_spent / ps_budget ps * 100 else 0),
          bs_over_budget = (remaining < 0),
          bs_near_budget =
            (if 0 < ps_budget ps then remaining < ps_budget ps * 0.1 else False)\<rparr>)"

record average_cost =
  avg_USD :: real
  avg_PKR :: real

definition get_average_cost_per_video :: "project_stats \<Rightarrow> error + average_cost" where
  "get_average_cost_per_video ps =
     (let total_videos = get_total_videos ps
      in if total_videos = 0 then Inr \<lparr>avg_USD = 0, avg_PKR = 0\<rparr>
         else ebind (get_total_costs_by_currency ps) (\<lambda>cost_totals.
                Inr \<lparr>avg_USD = py_get cost_totals ''USD'' 0 / real total_videos,
                     avg_PKR = py_get cost_totals ''PKR'' 0 / real total_videos\<rparr>))"

text \<open>
  \<open>sorted(xs, key=k, reverse=True)\<close>: CPython reverses the list, sorts it stably in
  ascending order and reverses the result, which keeps equal keys in their original
  order. \<open>sort_key\<close> is the stable insertion sort of the list library. The key
  \<open>created_at or ''\<close> reads a missing or empty timestamp as the empty string.
\<close>

definition py_sorted_reverse :: "('a \<Rightarrow> 'k::linorder) \<Rightarrow> 'a list \<Rightarrow> 'a list" where
  "py_sorted_reverse k xs = rev (sort_key k (rev xs))"

definition created_key :: "string option \<Rightarrow> string" where
  "created_key created_at = (case created_at of None \<Rightarrow> [] | Some ts \<Rightarrow> ts)"

text \<open>
  The slice \<open>xs[:limit]\<close>: the first \<open>limit\<close> elements, all of them when \<open>limit\<close> exceeds
  the length; a negative \<open>limit\<close> counts from the end.
\<close>

definition py_slice_to :: "'a list \<Rightarrow> int \<Rightarrow> 'a list" where
  "py_slice_to xs limit =
     (if limit < 0 then take (nat (int (length xs) + limit)) xs else take (nat limit) xs)"

definition recent_videos :: "project_stats \<Rightarrow> int \<Rightarrow> video list" where
  "recent_videos ps limit =
     py_slice_to (py_sorted_reverse (\<lambda>v. created_key (video_created_at v)) (ps_videos ps)) limit"

definition recent_costs :: "project_stats \<Rightarrow> int \<Rightarrow> cost list" where
  "recent_costs ps limit =
     py_slice_to (py_sorted_reverse (\<lambda>c. created_key (cost_created_at c)) (ps_costs ps)) limit"

record recent_activity =
  ra_videos :: "video_dict list"
  ra_costs :: "cost_dict list"

definition get_recent_activity :: "project_stats \<Rightarrow> int \<Rightarrow> recent_activity" where
  "get_recent_activity ps limit =
     \<lparr>ra_videos = map Video_to_dict (recent_videos ps limit),
      ra_costs = map CostModel_to_dict (recent_costs ps limit)\<rparr>"

record stats_dict =
  sd_total_videos :: nat
  sd_completed_videos :: nat
  sd_pending_videos :: int
  sd_completion_rate :: real
  sd_status_distribution :: "(string \<times> nat) list"
  sd_type_distribution :: "(string \<times> nat) list"
  sd_total_costs_by_currency :: "(string \<times> real) list"
  sd_cost_distribution_by_type :: "(string \<times> real) list"
  sd_budget_status :: budget_status
  sd_average_cost_per_video :: average_cost

text \<open>
  \<open>ProjectStats.to_dict\<close> evaluates the entries of its dictionary in order and has no
  handler: an exception of a getter is the exception of \<open>to_dict\<close>. The first four
  getters cannot raise.
\<close>

definition ProjectStats_to_dict :: "project_stats \<Rightarrow> error + stats_dict" where
  "ProjectStats_to_dict ps =
     ebind (get_status_distribution ps) (\<lambda>status_distribution.
     ebind (get_type_distribution ps) (\<lambda>type_distribution.
     ebind (get_total_costs_by_currency ps) (\<lambda>total_costs.
     ebind (get_cost_distribution_by_type ps) (\<lambda>cost_distribution.
     ebind (get_average_cost_per_video ps) (\<lambda>average.
       Inr \<lparr>sd_total_videos = get_total_videos ps,
            sd_completed_videos = get_completed_videos ps,
            sd_pending_videos = get_pending_videos ps,
            sd_completion_rate = get_completion_rate ps,
            sd_status_distribution = status_distribution,
            sd_type_distribution = type_distribution,
            sd_total_costs_by_currency = total_costs,
            sd_cost_distribution_by_type = cost_distribution,
            sd_budget_status = get_budget_status ps,
            sd_average_cost_per_video = average\<rparr>)))))"

section \<open>models.py: DataManager\<close>

text \<open>
  The store keeps the JSON text of the list of video dictionaries under the key
  \<open>videos\<close>; \<open>json.dumps\<close> followed by \<open>json.loads\<close> returns the dictionaries it was
  given, and an absent key reads as the empty list. The loop of \<open>get_videos\<close> calls
  \<open>VideoModel.from_dict(video_dict)\<close>. Inside the loop only ValidationError is caught
  (the record is skipped); any other exception leaves the loop and reaches the outer
  handler, which returns the empty list.
\<close>

record store =
  st_videos :: "video_dict list"
  st_costs :: "cost_dict list"

fun load_videos :: "video_dict list \<Rightarrow> error + video list" where
  "load_videos [] = Inr []"
| "load_videos (video_dict # rest) =
     (case ebind (VideoModel_attr ''from_dict'') (\<lambda>from_dict. from_dict video_dict) of
        Inl ValidationError \<Rightarrow> load_videos rest
      | Inl e \<Rightarrow> Inl e
      | Inr v \<Rightarrow> (case load_videos rest of Inl e \<Rightarrow> Inl e | Inr vs \<Rightarrow> Inr (v # vs)))"

definition get_videos :: "store \<Rightarrow> video list" where
  "get_videos st = (case load_videos (st_videos st) of Inl e \<Rightarrow> [] | Inr vs \<Rightarrow> vs)"

definition save_videos :: "store \<Rightarrow> video list \<Rightarrow> bool \<times> store" where
  "save_videos st videos = (True, st\<lparr>st_videos := map Video_to_dict videos\<rparr>)"

text \<open>
  \<open>DataManager.add_video\<close>: the ValidationError raised for a duplicate id is caught by
  the method's own handler, which returns \<open>False\<close> without writing.
\<close>

definition DataManager_add_video :: "store \<Rightarrow> video \<Rightarrow> bool \<times> store" where
  "DataManager_add_video st v =
     (let videos = get_videos st
      in if list_ex (\<lambda>u. video_id u = video_id v) videos then (False, st)
         else save_videos st (videos @ [v]))"

section \<open>app.py: the routes\<close>

text \<open>
  The database is the list of rows of each table; \<open>filter_by(id=...).first()\<close> is the
  first row with that id. A form is the list of its fields, and
  \<open>request.form.get(k, d)\<close> is \<open>py_get form k d\<close> (a field read without a default is
  tested for emptiness only, so the default \<open>None\<close> is read as the empty string). A
  route returns the flashed message with its category and the database after the
  request. Faults of the database itself (the \<open>except Exception\<close> handlers) are outside
  the model.
\<close>

record database =
  db_videos :: "db_video list"
  db_costs :: "db_cost list"
  db_budget :: "real option"

type_synonym flash = "string \<times> string"

definition get_budget :: "database \<Rightarrow> real" where
  "get_budget db = (case db_budget db of None \<Rightarrow> 0 | Some b \<Rightarrow> b)"

record index_context =
  ix_videos :: "db_video list"
  ix_costs :: "db_cost list"
  ix_budget :: real
  ix_total_videos :: nat
  ix_completed_videos :: nat
  ix_pending_videos :: int
  ix_total_costs_usd :: real
  ix_total_costs_pkr :: real
  ix_status_counts :: "(string \<times> nat) list"
  ix_type_counts :: "(string \<times> nat) list"

text \<open>
  \<open>index\<close>: the figures handed to the dashboard template. \<open>all_statuses\<close> is a Python
  set; \<open>remdups\<close> enumerates it once, and \<open>map_of\<close> reads the resulting dictionary, which
  does not depend on the enumeration.
\<close>

definition index :: "database \<Rightarrow> index_context" where
  "index db =
     (let videos = db_videos db;
          costs = db_costs db;
          total_videos = length videos;
          completed_videos = length (filter (\<lambda>v. dv_status v = ''Final'') videos);
          all_statuses = remdups (VIDEO_STATUSES @ TESTIMONIAL_STATUSES)
      in \<lparr>ix_videos = videos,
          ix_costs = costs,
          ix_budget = get_budget db,
          ix_total_videos = total_videos,
          ix_completed_videos = completed_videos,
          ix_pending_videos = int total_videos - int completed_videos,
          ix_total_costs_usd =
            sum_list (map dc_amount (filter (\<lambda>c. dc_currency c = ''USD'') costs)),
          ix_total_costs_pkr =
            sum_list (map dc_amount (filter (\<lambda>c. dc_currency c = ''PKR'') costs)),
          ix_status_counts =
            map (\<lambda>status. (status, length (filter (\<lambda>v. dv_status v = status) videos)))
              all_statuses,
          ix_type_counts =
            map (\<lambda>vtype. (vtype, length (filter (\<lambda>v. dv_type v = vtype) videos)))
              VIDEO_TYPES\<rparr>)"

definition add_video :: "string \<Rightarrow> (string \<times> string) list \<Rightarrow> database \<Rightarrow> flash \<times> database" where
  "add_video now form db =
     (let video_id = py_strip (py_get form ''video_id'' []);
          video_type = py_get form ''video_type'' [];
          status = py_get form ''status'' ''Conceptualization & Script''
      in if video_id = [] \<or> video_type = []
         then ((''Video ID and Type are required'', ''error''), db)
         else if find (\<lambda>v. dv_id v = video_id) (db_videos db) \<noteq> None
         then ((''Video ID already exists'', ''error''), db)
         else if video_type \<notin> set VIDEO_TYPES
         then ((''Invalid video type'', ''error''), db)
         else let valid_statuses = (if video_type = ''Testimonial'' then TESTIMONIAL_STATUSES
                                    else VIDEO_STATUSES)
              in if status \<notin> set valid_statuses
                 then ((''Invalid video status'', ''error''), db)
                 else ((''Video added successfully'', ''success''),
                       db\<lparr>db_videos := db_videos db @
                          [\<lparr>dv_id = video_id, dv_type = video_type, dv_status = status,
                            dv_created_at = Some now, dv_updated_at = Some now\<rparr>]\<rparr>))"

fun update_first :: "('a \<Rightarrow> bool) \<Rightarrow> ('a \<Rightarrow> 'a) \<Rightarrow> 'a list \<Rightarrow> 'a list" where
  "update_first P f [] = []"
| "update_first P f (x # xs) = (if P x then f x # xs else x # update_first P f xs)"

definition update_video_status ::
  "string \<Rightarrow> (string \<times> string) list \<Rightarrow> database \<Rightarrow> flash \<times> database" where
  "update_video_status now form db =
     (let video_id = py_get form ''video_id'' [];
          new_status = py_get form ''status'' []
      in if video_id = [] \<or> new_status = []
         then ((''Invalid request'', ''error''), db)
         else case find (\<lambda>v. dv_id v = video_id) (db_videos db) of
           None \<Rightarrow> ((''Video not found'', ''error''), db)
         | Some video \<Rightarrow>
             let valid_statuses = (if dv_type video = ''Testimonial'' then TESTIMONIAL_STATUSES
                                   else VIDEO_STATUSES)
             in if new_status \<notin> set valid_statuses
                then ((''Invalid video status'', ''error''), db)
                else ((''Video status updated successfully'', ''success''),
                      db\<lparr>db_videos := update_first (\<lambda>v. dv_id v = video_id)
                           (\<lambda>v. v\<lparr>dv_status := new_status, dv_updated_at := Some now\<rparr>)
                           (db_videos db)\<rparr>))"


section \<open>Progress percentage\<close>

lemma py_index_absent: "x \<notin> set xs \<Longrightarrow> py_index xs x = Inl ValueError"
  by (induction xs) auto

lemma py_index_present:
  "x \<in> set xs \<Longrightarrow> \<exists>i. py_index xs x = Inr i \<and> i < length xs \<and> xs ! i = x
     \<and> (\<forall>j < i. xs ! j \<noteq> x)"
proof (induction xs)
  case Nil
  then show ?case by simp
next
  case (Cons y ys)
  show ?case
  proof (cases "y = x")
    case True
    then show ?thesis by simp
  next
    case False
    with Cons.prems have "x \<in> set ys" by simp
    from Cons.IH [OF this] obtain i where
      i: "py_index ys x = Inr i" "i < length ys" "ys ! i = x" "\<forall>j < i. ys ! j \<noteq> x"
      by blast
    have "\<forall>j < Suc i. (y # ys) ! j \<noteq> x"
      using False i(4) by (auto simp: nth_Cons split: nat.splits)
    with False i show ?thesis by simp
  qed
qed

text \<open>
  The progress computation shared by both classes, as a function of the list: a status
  at the (first) position \<open>i\<close> gives \<open>(i + 1) / length * 100\<close>, an absent status gives 0.
\<close>

lemma progress_body:
  assumes "statuses \<noteq> []" "distinct statuses"
  shows "\<exists>r. (case ebind (py_index statuses s) (\<lambda>status_index.
                 ebind (py_truediv (real (status_index + 1)) (real (length statuses)))
                   (\<lambda>q. Inr (q * 100)))
            of Inl ValueError \<Rightarrow> Inr 0 | r \<Rightarrow> r) = Inr r
         \<and> 0 \<le> r \<and> r \<le> 100
         \<and> (\<forall>i < length statuses. statuses ! i = s \<longrightarrow>
               r = (real i + 1) / real (length statuses) * 100)
         \<and> (s \<notin> set statuses \<longrightarrow> r = 0)"
proof (cases "s \<in> set statuses")
  case False
  then have "\<forall>i < length statuses. statuses ! i \<noteq> s"
    by (metis nth_mem)
  with False show ?thesis
    by (simp add: py_index_absent ebind_def)
next
  case True
  from py_index_present [OF this] obtain i where
    i: "py_index statuses s = Inr i" "i < length statuses" "statuses ! i = s"
    by blast
  have len: "real (length statuses) \<noteq> 0" using assms(1) by simp
  have uniq: "\<forall>j < length statuses. statuses ! j = s \<longrightarrow> j = i"
    using assms(2) i(2,3) by (auto simp: nth_eq_iff_index_eq)
  have le: "(real i + 1) / real (length statuses) \<le> 1"
    using i(2) by (simp add: divide_le_eq)
  have ge: "0 \<le> (real i + 1) / real (length statuses)"
    by simp
  have hi: "(real i + 1) / real (length statuses) * 100 \<le> 100"
    using mult_right_mono [OF le, of 100] by simp
  have lo: "0 \<le> (real i + 1) / real (length statuses) * 100"
    using ge by simp
  have run: "(case ebind (py_index statuses s) (\<lambda>status_index.
                 ebind (py_truediv (real (status_index + 1)) (real (length statuses)))
                   (\<lambda>q. Inr (q * 100)))
            of Inl ValueError \<Rightarrow> Inr 0 | r \<Rightarrow> r)
           = Inr ((real i + 1) / real (length statuses) * 100)"
    using i(1) len by (simp add: ebind_def py_truediv_def add.commute)
  show ?thesis
    unfolding run using hi lo uniq True by blast
qed

text \<open>
  Claim C10. Neither \<open>get_progress_percentage\<close> raises. The database model picks the
  seven-stage Testimonial list for a Testimonial video and the five-stage list otherwise;
  \<open>models.py\<close> has its own five-stage list for every type. A status at position \<open>i\<close> of the
  applicable list gives \<open>(i + 1) / length * 100\<close>, a status outside it gives 0, and the
  result always lies in the closed interval from 0 to 100.
\<close>

theorem get_progress_percentage_total:
  "(\<exists>r. db_get_progress_percentage v = Inr r \<and> 0 \<le> r \<and> r \<le> 100
       \<and> (\<forall>i < length (if dv_type v = ''Testimonial'' then TESTIMONIAL_STATUSES
                         else VIDEO_STATUSES).
             (if dv_type v = ''Testimonial'' then TESTIMONIAL_STATUSES else VIDEO_STATUSES) ! i
               = dv_status v \<longrightarrow>
             r = (real i + 1)
                 / real (length (if dv_type v = ''Testimonial'' then TESTIMONIAL_STATUSES
                                 else VIDEO_STATUSES)) * 100)
       \<and> (dv_status v \<notin> set (if dv_type v = ''Testimonial'' then TESTIMONIAL_STATUSES
                               else VIDEO_STATUSES) \<longrightarrow> r = 0))
   \<and> (\<exists>r. get_progress_percentage w = Inr r \<and> 0 \<le> r \<and> r \<le> 100
       \<and> (\<forall>i < length VALID_STATUSES. VALID_STATUSES ! i = video_status w \<longrightarrow>
             r = (real i + 1) / real (length VALID_STATUSES) * 100)
       \<and> (video_status w \<notin> set VALID_STATUSES \<longrightarrow> r = 0))"
proof
  have t: "TESTIMONIAL_STATUSES \<noteq> []" "distinct TESTIMONIAL_STATUSES"
    by (simp_all add: TESTIMONIAL_STATUSES_def)
  have n: "VIDEO_STATUSES \<noteq> []" "distinct VIDEO_STATUSES"
    by (simp_all add: VIDEO_STATUSES_def)
  show "\<exists>r. db_get_progress_percentage v = Inr r \<and> 0 \<le> r \<and> r \<le> 100
       \<and> (\<forall>i < length (if dv_type v = ''Testimonial'' then TESTIMONIAL_STATUSES
                         else VIDEO_STATUSES).
             (if dv_type v = ''Testimonial'' then TESTIMONIAL_STATUSES else VIDEO_STATUSES) ! i
               = dv_status v \<longrightarrow>
             r = (real i + 1)
                 / real (length (if dv_type v = ''Testimonial'' then TESTIMONIAL_STATUSES
                                 else VIDEO_STATUSES)) * 100)
       \<and> (dv_status v \<notin> set (if dv_type v = ''Testimonial'' then TESTIMONIAL_STATUSES
                               else VIDEO_STATUSES) \<longrightarrow> r = 0)"
  proof (cases "dv_type v = ''Testimonial''")
    case True
    with progress_body [OF t, of "dv_status v"] show ?thesis
      unfolding db_get_progress_percentage_def Let_def by simp
  next
    case False
    with progress_body [OF n, of "dv_status v"] show ?thesis
      unfolding db_get_progress_percentage_def Let_def by simp
  qed
next
  have m: "VALID_STATUSES \<noteq> []" "distinct VALID_STATUSES"
    by (simp_all add: VALID_STATUSES_def)
  from progress_body [OF m, of "video_status w"]
  show "\<exists>r. get_progress_percentage w = Inr r \<and> 0 \<le> r \<and> r \<le> 100
       \<and> (\<forall>i < length VALID_STATUSES. VALID_STATUSES ! i = video_status w \<longrightarrow>
             r = (real i + 1) / real (length VALID_STATUSES) * 100)
       \<and> (video_status w \<notin> set VALID_STATUSES \<longrightarrow> r = 0)"
    unfolding get_progress_percentage_def Let_def by simp
qed

theorem get_progress_percentage_total_witness:
  "db_get_progress_percentage
     \<lparr>dv_id = ''t1'', dv_type = ''Testimonial'', dv_status = ''VO'',
      dv_created_at = None, dv_updated_at = None\<rparr> = Inr (400 / 7)
   \<and> get_progress_percentage
     \<lparr>video_id = ''v2'', video_type = ''Brand'', video_status = ''VO'',
      video_created_at = None, video_updated_at = None\<rparr> = Inr 40"
proof -
  let ?v = "\<lparr>dv_id = ''t1'', dv_type = ''Testimonial'', dv_status = ''VO'',
      dv_created_at = None, dv_updated_at = None\<rparr>"
  let ?w = "\<lparr>video_id = ''v2'', video_type = ''Brand'', video_status = ''VO'',
      video_created_at = None, video_updated_at = None\<rparr>"
  from get_progress_percentage_total [of ?v ?w] obtain r r' where
    r: "db_get_progress_percentage ?v = Inr r"
       "\<forall>i < length TESTIMONIAL_STATUSES. TESTIMONIAL_STATUSES ! i = ''VO'' \<longrightarrow>
          r = (real i + 1) / real (length TESTIMONIAL_STATUSES) * 100"
    and r': "get_progress_percentage ?w = Inr r'"
       "\<forall>i < length VALID_STATUSES. VALID_STATUSES ! i = ''VO'' \<longrightarrow>
          r' = (real i + 1) / real (length VALID_STATUSES) * 100"
    by auto
  have "(3::nat) < length TESTIMONIAL_STATUSES" "TESTIMONIAL_STATUSES ! 3 = ''VO''"
    by (simp_all add: TESTIMONIAL_STATUSES_def)
  with r(2) have "r = (real 3 + 1) / real (length TESTIMONIAL_STATUSES) * 100"
    by blast
  then have a: "r = 400 / 7"
    by (simp add: TESTIMONIAL_STATUSES_def)
  have "(1::nat) < length VALID_STATUSES" "VALID_STATUSES ! 1 = ''VO''"
    by (simp_all add: VALID_STATUSES_def)
  with r'(2) have "r' = (real 1 + 1) / real (length VALID_STATUSES) * 100"
    by blast
  then have b: "r' = 40"
    by (simp add: VALID_STATUSES_def)
  from r(1) r'(1) a b show ?thesis by simp
qed

section \<open>Dictionary updates\<close>


lemma py_iadd_absent: "k \<notin> fst ` set d \<Longrightarrow> py_iadd d k x = Inl KeyError"
proof -
  assume "k \<notin> fst ` set d"
  then have "map_of d k = None" by (simp add: map_of_eq_None_iff)
  then show ?thesis by (simp add: py_iadd_def)
qed

lemma update_existing:
  fixes d :: "(string \<times> 'a::plus) list"
  shows "distinct (map fst d) \<Longrightarrow> map_of d k = Some y \<Longrightarrow>
   AList.update k (y + x) d = map (\<lambda>(k', v). (k', if k' = k then v + x else v)) d"
proof (induction d)
  case Nil
  then show ?case by simp
next
  case (Cons p d)
  obtain k' v where p: "p = (k', v)" by (cases p)
  show ?case
  proof (cases "k' = k")
    case True
    with Cons.prems p have "y = v" by simp
    moreover have "k \<notin> fst ` set d" using Cons.prems(1) p True by auto
    then have "map (\<lambda>(k', v). (k', if k' = k then v + x else v)) d = d"
      by (induction d) auto
    ultimately show ?thesis using p True by simp
  next
    case False
    with Cons p show ?thesis by simp
  qed
qed


lemma py_iadd_present:
  fixes d :: "(string \<times> 'a::plus) list"
  assumes "distinct (map fst d)" "k \<in> fst ` set d"
  shows "py_iadd d k x = Inr (map (\<lambda>(k', v). (k', if k' = k then v + x else v)) d)"
proof -
  from assms(2) obtain y where y: "map_of d k = Some y"
    by (metis map_of_eq_None_iff not_Some_eq)
  with update_existing [OF assms(1) y] show ?thesis
    by (simp add: py_iadd_def)
qed

lemma keys_bump: "map fst (map (\<lambda>(k', v). (k', f k' v)) d) = map fst d"
  by (induction d) auto

section \<open>Cost distribution by type\<close>

lemma cost_type_loop_ok:
  assumes "distinct (map fst d)"
    and "\<forall>c \<in> set cs. cost_currency c = ''USD'' \<longrightarrow> cost_type c \<in> fst ` set d"
  shows "cost_type_loop d cs =
     Inr (map (\<lambda>(k, v). (k, v + sum_list (map cost_amount
            (filter (\<lambda>c. cost_type c = k \<and> cost_currency c = ''USD'') cs)))) d)"
  using assms
proof (induction cs arbitrary: d)
  case Nil
  then show ?case by simp
next
  case (Cons c cs)
  show ?case
  proof (cases "cost_currency c = ''USD''")
    case False
    with Cons show ?thesis by simp
  next
    case True
    let ?d' = "map (\<lambda>(k', v). (k', if k' = cost_type c then v + cost_amount c else v)) d"
    from True Cons.prems have mem: "cost_type c \<in> fst ` set d" by simp
    have step: "py_iadd d (cost_type c) (cost_amount c) = Inr ?d'"
      by (rule py_iadd_present [OF Cons.prems(1) mem])
    have keys: "map fst ?d' = map fst d" by (rule keys_bump)
    have d1: "distinct (map fst ?d')" using Cons.prems(1) by (simp only: keys)
    have "fst ` set ?d' = fst ` set d"
      using keys by (metis list.set_map)
    with Cons.prems(2) have d2:
      "\<forall>c \<in> set cs. cost_currency c = ''USD'' \<longrightarrow> cost_type c \<in> fst ` set ?d'"
      by simp
    from Cons.IH [OF d1 d2] step True show ?thesis
      by (simp add: comp_def case_prod_unfold add.assoc)
  qed
qed

text \<open>
  Claim C9. For a list of cost records whose USD entries carry one of the three cost
  types, the cost distribution maps Tool, Freelancer and Other to the sum of the amounts
  of the USD costs of that type. Costs in PKR contribute nothing: a list of PKR costs
  only yields 0 for every type.
\<close>

theorem cost_distribution_usd_only:
  "((\<forall>c \<in> set costs. cost_currency c = ''USD'' \<longrightarrow> cost_type c \<in> set COST_VALID_TYPES) \<longrightarrow>
      get_cost_distribution_by_type \<lparr>ps_videos = videos, ps_costs = costs, ps_budget = b\<rparr>
        = Inr (map (\<lambda>t. (t, sum_list (map cost_amount
                (filter (\<lambda>c. cost_type c = t \<and> cost_currency c = ''USD'') costs))))
               [''Tool'', ''Freelancer'', ''Other'']))
   \<and> ((\<forall>c \<in> set costs. cost_currency c = ''PKR'') \<longrightarrow>
      get_cost_distribution_by_type \<lparr>ps_videos = videos, ps_costs = costs, ps_budget = b\<rparr>
        = Inr [(''Tool'', 0), (''Freelancer'', 0), (''Other'', 0)])"
proof (intro conjI impI)
  let ?d = "map (\<lambda>t. (t, 0::real)) COST_VALID_TYPES"
  have dist: "distinct (map fst ?d)" by (simp add: COST_VALID_TYPES_def)
  have keys: "fst ` set ?d = set COST_VALID_TYPES" by (simp add: COST_VALID_TYPES_def)
  {
    assume "\<forall>c \<in> set costs. cost_currency c = ''USD'' \<longrightarrow> cost_type c \<in> set COST_VALID_TYPES"
    with keys have "\<forall>c \<in> set costs. cost_currency c = ''USD'' \<longrightarrow> cost_type c \<in> fst ` set ?d"
      by simp
    from cost_type_loop_ok [OF dist this]
    show "get_cost_distribution_by_type \<lparr>ps_videos = videos, ps_costs = costs, ps_budget = b\<rparr>
        = Inr (map (\<lambda>t. (t, sum_list (map cost_amount
                (filter (\<lambda>c. cost_type c = t \<and> cost_currency c = ''USD'') costs))))
               [''Tool'', ''Freelancer'', ''Other''])"
      by (simp add: get_cost_distribution_by_type_def COST_VALID_TYPES_def)
  }
  {
    assume pkr: "\<forall>c \<in> set costs. cost_currency c = ''PKR''"
    then have none: "\<forall>c \<in> set costs. cost_currency c = ''USD'' \<longrightarrow> cost_type c \<in> fst ` set ?d"
      by auto
    have "\<And>t. filter (\<lambda>c. cost_type c = t \<and> cost_currency c = ''USD'') costs = []"
      using pkr by (auto simp: filter_empty_conv)
    with cost_type_loop_ok [OF dist none]
    show "get_cost_distribution_by_type \<lparr>ps_videos = videos, ps_costs = costs, ps_budget = b\<rparr>
        = Inr [(''Tool'', 0), (''Freelancer'', 0), (''Other'', 0)]"
      by (simp add: get_cost_distribution_by_type_def COST_VALID_TYPES_def)
  }
qed


theorem cost_distribution_usd_only_witness:
  "get_cost_distribution_by_type
     \<lparr>ps_videos = [],
      ps_costs =
        [\<lparr>cost_id = Some 1, cost_type = ''Tool'', cost_amount = 50, cost_currency = ''USD'',
          cost_notes = [], cost_created_at = Some ''2024-05-01T10:00:00''\<rparr>,
         \<lparr>cost_id = Some 2, cost_type = ''Other'', cost_amount = 1000, cost_currency = ''PKR'',
          cost_notes = [], cost_created_at = Some ''2024-05-02T10:00:00''\<rparr>,
         \<lparr>cost_id = Some 3, cost_type = ''Tool'', cost_amount = 51 / 2, cost_currency = ''USD'',
          cost_notes = [], cost_created_at = Some ''2024-05-03T10:00:00''\<rparr>],
      ps_budget = 100\<rparr>
     = Inr [(''Tool'', 151 / 2), (''Freelancer'', 0), (''Other'', 0)]
   \<and> get_cost_distribution_by_type
     \<lparr>ps_videos = [],
      ps_costs =
        [\<lparr>cost_id = Some 2, cost_type = ''Other'', cost_amount = 1000, cost_currency = ''PKR'',
          cost_notes = [], cost_created_at = Some ''2024-05-02T10:00:00''\<rparr>],
      ps_budget = 100\<rparr>
     = Inr [(''Tool'', 0), (''Freelancer'', 0), (''Other'', 0)]"
proof -
  let ?c1 = "\<lparr>cost_id = Some 1, cost_type = ''Tool'', cost_amount = 50, cost_currency = ''USD'',
          cost_notes = [], cost_created_at = Some ''2024-05-01T10:00:00''\<rparr>"
  let ?c2 = "\<lparr>cost_id = Some 2, cost_type = ''Other'', cost_amount = 1000, cost_currency = ''PKR'',
          cost_notes = [], cost_created_at = Some ''2024-05-02T10:00:00''\<rparr>"
  let ?c3 = "\<lparr>cost_id = Some 3, cost_type = ''Tool'', cost_amount = 51 / 2, cost_currency = ''USD'',
          cost_notes = [], cost_created_at = Some ''2024-05-03T10:00:00''\<rparr>"
  have h1: "\<forall>c \<in> set [?c1, ?c2, ?c3]. cost_currency c = ''USD'' \<longrightarrow>
              cost_type c \<in> set COST_VALID_TYPES"
    by (simp add: COST_VALID_TYPES_def)
  have h2: "\<forall>c \<in> set [?c2]. cost_currency c = ''PKR''"
    by simp
  from cost_distribution_usd_only [of "[?c1, ?c2, ?c3]" "[]" 100] h1
  have a: "get_cost_distribution_by_type
             \<lparr>ps_videos = [], ps_costs = [?c1, ?c2, ?c3], ps_budget = 100\<rparr>
           = Inr [(''Tool'', 151 / 2), (''Freelancer'', 0), (''Other'', 0)]"
    by simp
  from cost_distribution_usd_only [of "[?c2]" "[]" 100] h2
  have b: "get_cost_distribution_by_type
             \<lparr>ps_videos = [], ps_costs = [?c2], ps_budget = 100\<rparr>
           = Inr [(''Tool'', 0), (''Freelancer'', 0), (''Other'', 0)]"
    by simp
  from a b show ?thesis by simp
qed

section \<open>Budget status\<close>

text \<open>
  Claim C2. With \<open>spent\<close> the sum of the amounts of the costs whose currency is USD, the
  budget status of a budget \<open>b\<close> has \<open>remaining = b - spent\<close>, \<open>percentage_used =
  spent / b * 100\<close> for a positive budget and 0 otherwise, \<open>over_budget\<close> exactly when
  \<open>remaining\<close> is negative, and \<open>near_budget\<close> equal to \<open>remaining < b * 0.1\<close> for a positive
  budget and false otherwise. A budget of 100 with 120 spent leaves -20 and is over
  budget; with 95 spent it is near budget; a budget of 0 gives a percentage of 0 and is
  not near budget.
\<close>

theorem budget_status_formulas:
  "(let spent = sum_list (map cost_amount (filter (\<lambda>c. cost_currency c = ''USD'') costs));
        bs = get_budget_status \<lparr>ps_videos = videos, ps_costs = costs, ps_budget = b\<rparr>
    in bs_spent bs = spent
       \<and> bs_remaining bs = b - spent
       \<and> bs_percentage_used bs = (if 0 < b then spent / b * 100 else 0)
       \<and> bs_over_budget bs = (bs_remaining bs < 0)
       \<and> bs_near_budget bs = (if 0 < b then bs_remaining bs < b * 0.1 else False)
       \<and> (b = 100 \<and> spent = 120 \<longrightarrow> bs_remaining bs = - 20 \<and> bs_over_budget bs)
       \<and> (b = 100 \<and> spent = 95 \<longrightarrow> bs_near_budget bs)
       \<and> (b = 0 \<longrightarrow> bs_percentage_used bs = 0 \<and> \<not> bs_near_budget bs))"
  by (simp add: get_budget_status_def Let_def)

theorem budget_status_formulas_witness:
  "(let bs = get_budget_status
       \<lparr>ps_videos = [],
        ps_costs =
          [\<lparr>cost_id = Some 1, cost_type = ''Tool'', cost_amount = 120, cost_currency = ''USD'',
            cost_notes = [], cost_created_at = Some ''2024-05-01T10:00:00''\<rparr>,
           \<lparr>cost_id = Some 2, cost_type = ''Other'', cost_amount = 1000, cost_currency = ''PKR'',
            cost_notes = [], cost_created_at = Some ''2024-05-02T10:00:00''\<rparr>],
        ps_budget = 100\<rparr>
    in bs_spent bs = 120 \<and> bs_remaining bs = - 20 \<and> bs_over_budget bs
       \<and> bs_percentage_used bs = 120 \<and> bs_near_budget bs)
   \<and> (let bs = get_budget_status
       \<lparr>ps_videos = [],
        ps_costs =
          [\<lparr>cost_id = Some 1, cost_type = ''Tool'', cost_amount = 95, cost_currency = ''USD'',
            cost_notes = [], cost_created_at = Some ''2024-05-01T10:00:00''\<rparr>],
        ps_budget = 100\<rparr>
    in bs_remaining bs = 5 \<and> bs_near_budget bs \<and> \<not> bs_over_budget bs)
   \<and> (let bs = get_budget_status
       \<lparr>ps_videos = [],
        ps_costs =
          [\<lparr>cost_id = Some 1, cost_type = ''Tool'', cost_amount = 95, cost_currency = ''USD'',
            cost_notes = [], cost_created_at = Some ''2024-05-01T10:00:00''\<rparr>],
        ps_budget = 0\<rparr>
    in bs_percentage_used bs = 0 \<and> \<not> bs_near_budget bs)"
proof -
  let ?c120 = "\<lparr>cost_id = Some 1, cost_type = ''Tool'', cost_amount = 120, cost_currency = ''USD'',
            cost_notes = [], cost_created_at = Some ''2024-05-01T10:00:00''\<rparr>"
  let ?pkr = "\<lparr>cost_id = Some 2, cost_type = ''Other'', cost_amount = 1000, cost_currency = ''PKR'',
            cost_notes = [], cost_created_at = Some ''2024-05-02T10:00:00''\<rparr>"
  let ?c95 = "\<lparr>cost_id = Some 1, cost_type = ''Tool'', cost_amount = 95, cost_currency = ''USD'',
            cost_notes = [], cost_created_at = Some ''2024-05-01T10:00:00''\<rparr>"
  have s120: "sum_list (map cost_amount (filter (\<lambda>c. cost_currency c = ''USD'') [?c120, ?pkr])) = 120"
    by simp
  have s95: "sum_list (map cost_amount (filter (\<lambda>c. cost_currency c = ''USD'') [?c95])) = 95"
    by simp
  from budget_status_formulas [of "[?c120, ?pkr]" "[]" 100] s120
  have a: "let bs = get_budget_status \<lparr>ps_videos = [], ps_costs = [?c120, ?pkr], ps_budget = 100\<rparr>
    in bs_spent bs = 120 \<and> bs_remaining bs = - 20 \<and> bs_over_budget bs
       \<and> bs_percentage_used bs = 120 \<and> bs_near_budget bs"
    by (simp add: Let_def)
  from budget_status_formulas [of "[?c95]" "[]" 100] s95
  have b: "let bs = get_budget_status \<lparr>ps_videos = [], ps_costs = [?c95], ps_budget = 100\<rparr>
    in bs_remaining bs = 5 \<and> bs_near_budget bs \<and> \<not> bs_over_budget bs"
    by (simp add: Let_def)
  from budget_status_formulas [of "[?c95]" "[]" 0]
  have c: "let bs = get_budget_status \<lparr>ps_videos = [], ps_costs = [?c95], ps_budget = 0\<rparr>
    in bs_percentage_used bs = 0 \<and> \<not> bs_near_budget bs"
    by (simp add: Let_def)
  from a b c show ?thesis by simp
qed

section \<open>The end-to-end scenario\<close>

text \<open>
  Claim C3. For the videos v1 (Brand, Final) and v2 (Brand, VO), the costs Tool 50 USD
  and Other 1000 PKR and the budget 100, the getters of \<open>ProjectStats\<close> return
  \<open>total_videos = 2\<close>, \<open>completed_videos = 1\<close>, \<open>completion_rate = 50\<close>, the totals by
  currency USD 50 and PKR 1000, the cost distribution Tool 50, Freelancer 0, Other 0, and
  the remaining budget 50. The fields the scenario leaves open are arbitrary.
\<close>

theorem end_to_end_scenario:
  "(let ps =
       \<lparr>ps_videos =
          [\<lparr>video_id = ''v1'', video_type = ''Brand'', video_status = ''Final'',
            video_created_at = t1, video_updated_at = u1\<rparr>,
           \<lparr>video_id = ''v2'', video_type = ''Brand'', video_status = ''VO'',
            video_created_at = t2, video_updated_at = u2\<rparr>],
        ps_costs =
          [\<lparr>cost_id = i1, cost_type = ''Tool'', cost_amount = 50, cost_currency = ''USD'',
            cost_notes = n1, cost_created_at = t3\<rparr>,
           \<lparr>cost_id = i2, cost_type = ''Other'', cost_amount = 1000, cost_currency = ''PKR'',
            cost_notes = n2, cost_created_at = t4\<rparr>],
        ps_budget = 100\<rparr>
    in get_total_videos ps = 2
       \<and> get_completed_videos ps = 1
       \<and> get_completion_rate ps = 50
       \<and> get_total_costs_by_currency ps = Inr [(''USD'', 50), (''PKR'', 1000)]
       \<and> get_cost_distribution_by_type ps
           = Inr [(''Tool'', 50), (''Freelancer'', 0), (''Other'', 0)]
       \<and> bs_remaining (get_budget_status ps) = 50)"
  by (simp add: get_total_costs_by_currency_def
     get_cost_distribution_by_type_def get_total_videos_def
     get_completed_videos_def get_completion_rate_def get_budget_status_def
     py_iadd_def is_completed_def COST_VALID_TYPES_def Let_def)

text \<open>
  The snapshot \<open>ProjectStats.to_dict\<close> does not deliver these figures, on this input or on
  any other: its entry \<open>status_distribution\<close> raises NameError.
\<close>

lemma ProjectStats_to_dict_raises: "ProjectStats_to_dict ps = Inl NameError"
  by (simp add: ProjectStats_to_dict_def get_status_distribution_def VideoModel_attr_def
      ebind_def)

section \<open>Status distribution\<close>

text \<open>
  Claim C1, on the code of \<open>ProjectStats.get_status_distribution\<close>. The method does not
  return a mapping: for every list of videos, the empty one included, building the
  initial dictionary reads the unbound name \<open>VideoModel\<close> and raises NameError.
\<close>

theorem get_status_distribution_raises:
  "get_status_distribution ps = Inl NameError"
  by (simp add: get_status_distribution_def VideoModel_attr_def ebind_def)

lemma map_of_tabulate:
  "map_of (map (\<lambda>k. (k, f k)) ks) k = (if k \<in> set ks then Some (f k) else None)"
  by (induction ks) auto

text \<open>
  The dashboard view \<open>index\<close> of \<open>app.py\<close> does what the claim says: its status counts
  have as keys exactly the statuses of the combined set of the two progression lists, and
  each key is mapped to the number of videos whose status field equals it, whatever the
  type of the video; a status no video has is mapped to 0.
\<close>

lemma index_status_counts:
  "dom (map_of (ix_status_counts (index db)))
     = set VIDEO_STATUSES \<union> set TESTIMONIAL_STATUSES
   \<and> (\<forall>s \<in> set VIDEO_STATUSES \<union> set TESTIMONIAL_STATUSES.
         map_of (ix_status_counts (index db)) s
           = Some (length (filter (\<lambda>v. dv_status v = s) (db_videos db))))"
proof -
  let ?all = "remdups (VIDEO_STATUSES @ TESTIMONIAL_STATUSES)"
  let ?f = "\<lambda>s. length (filter (\<lambda>v. dv_status v = s) (db_videos db))"
  have tab: "ix_status_counts (index db) = map (\<lambda>s. (s, ?f s)) ?all"
    by (simp add: index_def Let_def)
  have look: "\<And>s. map_of (ix_status_counts (index db)) s
                 = (if s \<in> set ?all then Some (?f s) else None)"
    unfolding tab by (rule map_of_tabulate)
  have all: "set ?all = set VIDEO_STATUSES \<union> set TESTIMONIAL_STATUSES"
    by simp
  have dom: "dom (map_of (ix_status_counts (index db)))
               = set VIDEO_STATUSES \<union> set TESTIMONIAL_STATUSES"
    using look all by (auto simp: dom_def split: if_splits)
  have vals: "\<forall>s \<in> set VIDEO_STATUSES \<union> set TESTIMONIAL_STATUSES.
                map_of (ix_status_counts (index db)) s = Some (?f s)"
    using look all by simp
  from dom vals show ?thesis by blast
qed

lemma index_status_counts_example:
  "map (\<lambda>s. map_of (ix_status_counts (index
      \<lparr>db_videos =
         [\<lparr>dv_id = ''a'', dv_type = ''Brand'', dv_status = ''Final'',
           dv_created_at = None, dv_updated_at = None\<rparr>,
          \<lparr>dv_id = ''b'', dv_type = ''Testimonial'', dv_status = ''Avatar Creation'',
           dv_created_at = None, dv_updated_at = None\<rparr>,
          \<lparr>dv_id = ''c'', dv_type = ''Testimonial'', dv_status = ''Final'',
           dv_created_at = None, dv_updated_at = None\<rparr>],
       db_costs = [], db_budget = None\<rparr>)) s)
     [''Final'', ''Avatar Creation'', ''VO'', ''Script'']
   = [Some 2, Some 1, Some 0, None]"
  by (simp add: index_def VIDEO_STATUSES_def TESTIMONIAL_STATUSES_def Let_def)

section \<open>Round trip through the storage dictionary\<close>

lemma py_round_int_of_int: "py_round_int (of_int k) = k"
  by (simp add: py_round_int_def)

lemma py_round_idem: "py_round (py_round x 2) 2 = py_round x 2"
  by (simp add: py_round_def py_round_int_of_int)

lemma py_round_int_nonneg: "0 \<le> x \<Longrightarrow> 0 \<le> py_round_int x"
  by (simp add: py_round_int_def Let_def)

lemma py_round_int_le:
  assumes "x \<le> of_int n"
  shows "py_round_int x \<le> n"
proof -
  have f: "\<lfloor>x\<rfloor> \<le> n" using assms by (simp add: floor_le_iff)
  show ?thesis
  proof (cases "\<lfloor>x\<rfloor> = n")
    case True
    then have "of_int n \<le> x" by (metis of_int_floor_le)
    with assms have "x = of_int n" by simp
    then show ?thesis by (simp add: py_round_int_of_int)
  next
    case False
    with f have "\<lfloor>x\<rfloor> + 1 \<le> n" by simp
    with f show ?thesis by (simp add: py_round_int_def Let_def)
  qed
qed

lemma py_round_range:
  assumes "0 \<le> x" "x \<le> 1000000"
  shows "0 \<le> py_round x 2 \<and> py_round x 2 \<le> 1000000"
proof -
  have "0 \<le> x * 100" using assms(1) by simp
  then have lo: "0 \<le> py_round_int (x * 100)" by (rule py_round_int_nonneg)
  have "x * 100 \<le> of_int 100000000" using assms(2) by simp
  then have hi: "py_round_int (x * 100) \<le> 100000000" by (rule py_round_int_le)
  from hi have "real_of_int (py_round_int (x * 100)) \<le> 100000000"
    by linarith
  with lo show ?thesis
    by (simp add: py_round_def)
qed

lemma strip_right_prefix: "\<exists>n. rev (dropWhile P (rev u)) = take n u"
proof -
  obtain k where "dropWhile P (rev u) = drop k (rev u)"
    by (metis dropWhile_eq_drop)
  then have "rev (dropWhile P (rev u)) = take (length u - k) u"
    by (simp add: rev_drop)
  then show ?thesis by blast
qed

lemma py_strip_idem: "py_strip (py_strip s) = py_strip s"
proof -
  let ?u = "dropWhile py_isspace s"
  let ?t = "rev (dropWhile py_isspace (rev ?u))"
  have t: "py_strip s = ?t" by (simp add: py_strip_def)
  obtain n where n: "?t = take n ?u" using strip_right_prefix by blast
  have front: "dropWhile py_isspace ?t = ?t"
  proof (cases "?t = []")
    case True
    show ?thesis by (simp only: True dropWhile.simps)
  next
    case False
    with n have "?u \<noteq> []" "0 < n" by auto
    then have "hd ?t = hd ?u" using n by (simp add: hd_take)
    moreover have "\<not> py_isspace (hd ?u)"
      using \<open>?u \<noteq> []\<close> by (rule hd_dropWhile)
    ultimately have "\<not> py_isspace (hd ?t)" by simp
    with False show ?thesis
      by (cases ?t) simp_all
  qed
  have "py_strip ?t = rev (dropWhile py_isspace (rev (dropWhile py_isspace ?t)))"
    by (simp add: py_strip_def)
  also have "\<dots> = rev (dropWhile py_isspace (rev ?t))"
    by (simp only: front)
  also have "\<dots> = ?t"
    by (simp add: dropWhile_idem)
  finally show ?thesis by (simp only: t)
qed

lemma py_strip_length: "length (py_strip s) \<le> length s"
proof -
  have "length (py_strip s) \<le> length (dropWhile py_isspace s)"
    unfolding py_strip_def
    by (metis length_dropWhile_le length_rev)
  also have "\<dots> \<le> length s" by (rule length_dropWhile_le)
  finally show ?thesis .
qed

text \<open>
  Claim C4, the video half, on the code: \<open>Video.from_dict\<close> passes the keywords
  \<open>created_at\<close> and \<open>updated_at\<close> to a constructor that has no such parameters, so
  rebuilding a video from its own storage dictionary raises TypeError for every video.
\<close>

theorem Video_round_trip_raises:
  "Video_from_dict (Video_to_dict v) = Inl TypeError"
  by (simp add: Video_from_dict_def Video_to_dict_def py_bind_kwargs_def Video_init_params_def
      ebind_def)

text \<open>
  The cost half holds. Every cost record the constructor returns (with a non-empty
  clock reading) is rebuilt from its storage dictionary field for field, at any later
  clock reading.
\<close>

lemma CostModel_round_trip:
  assumes "CostModel_init now0 i t a cur notes created = Inr c" "now0 \<noteq> []"
  shows "CostModel_from_dict now (CostModel_to_dict c) = Inr c"
proof -
  from assms(1) have t: "t \<noteq> []" "t \<in> set COST_VALID_TYPES"
    and a: "0 \<le> a" "a \<le> 1000000"
    and cur: "cur \<noteq> []" "cur \<in> set VALID_CURRENCIES"
    and nt: "length notes \<le> 500"
    by (auto simp: CostModel_init_def ebind_def cost_validate_type_def validate_amount_def
        validate_currency_def validate_notes_def split: if_splits)
  from assms(1) t a cur nt have c: "c = \<lparr>cost_id = i, cost_type = t,
      cost_amount = py_round a 2, cost_currency = cur, cost_notes = py_strip notes,
      cost_created_at = (case created of None \<Rightarrow> Some now0
               | Some ts \<Rightarrow> if ts = [] then Some now0 else Some ts)\<rparr>"
    by (simp add: CostModel_init_def ebind_def cost_validate_type_def validate_amount_def
        validate_currency_def validate_notes_def)
  have r: "0 \<le> py_round a 2" "py_round a 2 \<le> 1000000"
    using py_round_range [OF a] by simp_all
  have n: "length (py_strip notes) \<le> 500"
    using py_strip_length [of "notes"] nt by simp
  have ts: "\<exists>ts. cost_created_at c = Some ts \<and> ts \<noteq> []"
    using assms(2) c by (simp split: option.splits)
  then obtain ts where ts': "cost_created_at c = Some ts" "ts \<noteq> []" by blast
  have "CostModel_from_dict now (CostModel_to_dict c)
      = CostModel_init now (cost_id c) (cost_type c) (cost_amount c) (cost_currency c)
          (cost_notes c) (cost_created_at c)"
    by (simp add: CostModel_from_dict_def CostModel_to_dict_def py_bind_kwargs_def
        CostModel_init_params_def ebind_def)
  also have "\<dots> = Inr c"
    using t cur r n ts' c
    by (simp add: CostModel_init_def ebind_def cost_validate_type_def validate_amount_def
        validate_currency_def validate_notes_def py_round_idem py_strip_idem)
  finally show ?thesis .
qed

section \<open>Adding a video with a duplicate id\<close>

text \<open>
  Reading a non-empty store fails at its first record: \<open>VideoModel.from_dict\<close> raises
  NameError, which is no ValidationError. (Were the name bound to \<open>Video\<close>, the call
  would raise TypeError on the dictionaries that \<open>to_dict\<close> writes, as the round trip of
  the previous section shows, with the same outcome.)
\<close>

lemma load_videos_nonempty: "load_videos (d # ds) = Inl NameError"
  by (simp add: VideoModel_attr_def ebind_def)

text \<open>No stored video is ever read back: \<open>get_videos\<close> returns the empty list.\<close>

lemma get_videos_empty: "get_videos st = []"
proof (cases "st_videos st")
  case Nil
  then show ?thesis by (simp add: get_videos_def)
next
  case (Cons d ds)
  with load_videos_nonempty [of d ds] show ?thesis
    by (simp add: get_videos_def)
qed

text \<open>
  Hence \<open>DataManager.add_video\<close> never finds a duplicate: it reports success and replaces
  the stored list by the new video alone.
\<close>

lemma DataManager_add_video_overwrites:
  "DataManager_add_video st v = (True, st\<lparr>st_videos := [Video_to_dict v]\<rparr>)"
  by (simp add: DataManager_add_video_def get_videos_empty save_videos_def)

text \<open>
  Claim C8, on the code of \<open>DataManager.add_video\<close>. The store holds the video v1 (Brand,
  Script) and a video v2; adding another video with the id v1 is not rejected: the call
  returns \<open>True\<close> and the store afterwards holds the new video only.
\<close>

theorem DataManager_add_video_duplicate:
  "DataManager_add_video
     \<lparr>st_videos =
        [Video_to_dict \<lparr>video_id = ''v1'', video_type = ''Brand'', video_status = ''Script'',
           video_created_at = None, video_updated_at = None\<rparr>,
         Video_to_dict \<lparr>video_id = ''v2'', video_type = ''System'', video_status = ''Final'',
           video_created_at = None, video_updated_at = None\<rparr>],
      st_costs = []\<rparr>
     \<lparr>video_id = ''v1'', video_type = ''System'', video_status = ''VO'',
      video_created_at = None, video_updated_at = None\<rparr>
   = (True,
      \<lparr>st_videos =
         [\<lparr>vd_id = Some ''v1'', vd_type = Some ''System'', vd_status = Some ''VO'',
           vd_created_at = None, vd_updated_at = None\<rparr>],
       st_costs = []\<rparr>)"
  by (simp add: DataManager_add_video_def get_videos_def save_videos_def Video_to_dict_def
      VideoModel_attr_def ebind_def)

text \<open>
  The route \<open>add_video\<close> of \<open>app.py\<close> does what the claim says: a form whose video id is
  the id of a stored row is answered with an error, and the database is unchanged.
\<close>

lemma add_video_duplicate_rejected:
  assumes "find (\<lambda>v. dv_id v = py_strip (py_get form ''video_id'' [])) (db_videos db) \<noteq> None"
  shows "snd (add_video now form db) = db \<and> snd (fst (add_video now form db)) = ''error''"
  using assms by (simp add: add_video_def Let_def)

section \<open>Rejected status updates\<close>

text \<open>
  \<open>Video.update_status\<close> of \<open>models.py\<close> validates against its one list for every type: a
  Testimonial video is moved to \<open>Script\<close>, which is not a stage of the seven-stage
  Testimonial list.
\<close>

theorem update_status_counterexample:
  "''Script'' \<notin> set TESTIMONIAL_STATUSES
   \<and> update_status ''2024-06-01T12:00:00''
       \<lparr>video_id = ''t1'', video_type = ''Testimonial'', video_status = ''VO'',
        video_created_at = None, video_updated_at = None\<rparr> ''Script''
     = Inr \<lparr>video_id = ''t1'', video_type = ''Testimonial'', video_status = ''Script'',
            video_created_at = None, video_updated_at = Some ''2024-06-01T12:00:00''\<rparr>"
  by (simp add: update_status_def validate_status_def ebind_def VALID_STATUSES_def
      TESTIMONIAL_STATUSES_def)

text \<open>
  Claim C6, as the code has it. The route \<open>update_video_status\<close> answers a status outside
  the list of the stored video's type (the seven-stage list for a Testimonial video, the
  five-stage list of \<open>database.py\<close> otherwise) with an error and leaves the database as it
  was. \<open>Video.update_status\<close> of \<open>models.py\<close> raises ValidationError for a status outside
  its own list (Script, VO, Visuals, Editing, Final), whatever the type, before any field
  is written, and accepts every status of that list.
\<close>

theorem status_update_rejected:
  "(\<forall>video. find (\<lambda>v. dv_id v = py_get form ''video_id'' []) (db_videos db) = Some video
        \<and> py_get form ''status'' [] \<notin> set (if dv_type video = ''Testimonial''
                                            then TESTIMONIAL_STATUSES else VIDEO_STATUSES)
      \<longrightarrow> snd (update_video_status now form db) = db
          \<and> snd (fst (update_video_status now form db)) = ''error'')
   \<and> (new_status \<notin> set VALID_STATUSES \<longrightarrow>
         update_status now v new_status = Inl ValidationError)
   \<and> (new_status \<in> set VALID_STATUSES \<longrightarrow>
         update_status now v new_status
           = Inr (v\<lparr>video_status := new_status, video_updated_at := Some now\<rparr>))"
proof (intro conjI allI impI)
  fix video
  assume "find (\<lambda>v. dv_id v = py_get form ''video_id'' []) (db_videos db) = Some video
        \<and> py_get form ''status'' [] \<notin> set (if dv_type video = ''Testimonial''
                                            then TESTIMONIAL_STATUSES else VIDEO_STATUSES)"
  then show "snd (update_video_status now form db) = db"
    and "snd (fst (update_video_status now form db)) = ''error''"
    by (simp_all add: update_video_status_def Let_def)
next
  assume "new_status \<notin> set VALID_STATUSES"
  then show "update_status now v new_status = Inl ValidationError"
    by (simp add: update_status_def validate_status_def ebind_def)
next
  assume "new_status \<in> set VALID_STATUSES"
  moreover from this have "new_status \<noteq> []" by (auto simp: VALID_STATUSES_def)
  ultimately show "update_status now v new_status
           = Inr (v\<lparr>video_status := new_status, video_updated_at := Some now\<rparr>)"
    by (simp add: update_status_def validate_status_def ebind_def)
qed


theorem status_update_rejected_witness:
  "update_video_status ''2024-06-01T12:00:00''
     [(''video_id'', ''t1''), (''status'', ''Script'')]
     \<lparr>db_videos =
        [\<lparr>dv_id = ''t1'', dv_type = ''Testimonial'', dv_status = ''VO'',
          dv_created_at = None, dv_updated_at = None\<rparr>],
      db_costs = [], db_budget = None\<rparr>
   = ((''Invalid video status'', ''error''),
      \<lparr>db_videos =
        [\<lparr>dv_id = ''t1'', dv_type = ''Testimonial'', dv_status = ''VO'',
          dv_created_at = None, dv_updated_at = None\<rparr>],
      db_costs = [], db_budget = None\<rparr>)
   \<and> update_status ''2024-06-01T12:00:00''
       \<lparr>video_id = ''t1'', video_type = ''Testimonial'', video_status = ''VO'',
        video_created_at = None, video_updated_at = None\<rparr> ''Avatar Creation''
     = Inl ValidationError
   \<and> update_status ''2024-06-01T12:00:00''
       \<lparr>video_id = ''t1'', video_type = ''Testimonial'', video_status = ''VO'',
        video_created_at = None, video_updated_at = None\<rparr> ''Editing''
     = Inr \<lparr>video_id = ''t1'', video_type = ''Testimonial'', video_status = ''Editing'',
            video_created_at = None, video_updated_at = Some ''2024-06-01T12:00:00''\<rparr>"
proof -
  let ?now = "''2024-06-01T12:00:00''"
  let ?row = "\<lparr>dv_id = ''t1'', dv_type = ''Testimonial'', dv_status = ''VO'',
          dv_created_at = None, dv_updated_at = None\<rparr>"
  let ?db = "\<lparr>db_videos = [?row], db_costs = [], db_budget = None\<rparr>"
  let ?form = "[(''video_id'', ''t1''), (''status'', ''Script'')]"
  let ?v = "\<lparr>video_id = ''t1'', video_type = ''Testimonial'', video_status = ''VO'',
        video_created_at = None, video_updated_at = None\<rparr>"
  have stored: "find (\<lambda>v. dv_id v = py_get ?form ''video_id'' []) (db_videos ?db) = Some ?row
        \<and> py_get ?form ''status'' [] \<notin> set (if dv_type ?row = ''Testimonial''
                                            then TESTIMONIAL_STATUSES else VIDEO_STATUSES)"
    by (simp add: py_get_def TESTIMONIAL_STATUSES_def)
  have out: "''Avatar Creation'' \<notin> set VALID_STATUSES"
    and inside: "''Editing'' \<in> set VALID_STATUSES"
    by (simp_all add: VALID_STATUSES_def)
  note t1 = status_update_rejected [of ?form ?db ?now "''Avatar Creation''" ?v]
  note t2 = status_update_rejected [of ?form ?db ?now "''Editing''" ?v]
  from t1 stored have unchanged: "snd (update_video_status ?now ?form ?db) = ?db"
    and err: "snd (fst (update_video_status ?now ?form ?db)) = ''error''"
    by blast+
  have msg: "fst (fst (update_video_status ?now ?form ?db)) = ''Invalid video status''"
    by (simp add: update_video_status_def py_get_def TESTIMONIAL_STATUSES_def)
  from unchanged err msg
  have a: "update_video_status ?now ?form ?db = ((''Invalid video status'', ''error''), ?db)"
    by (metis prod.collapse)
  from t1 out have b: "update_status ?now ?v ''Avatar Creation'' = Inl ValidationError"
    by blast
  from t2 inside have c: "update_status ?now ?v ''Editing''
     = Inr (?v\<lparr>video_status := ''Editing'', video_updated_at := Some ?now\<rparr>)"
    by blast
  from a b c show ?thesis by simp
qed

section \<open>The amount of a cost\<close>








section \<open>Recent activity\<close>

lemma py_sorted_reverse_descending:
  "sorted_wrt (\<lambda>a b. k b \<le> k a) (py_sorted_reverse k xs)"
proof -
  have "sorted (map k (sort_key k (rev xs)))" by simp
  then have "sorted_wrt (\<lambda>a b. k a \<le> k b) (sort_key k (rev xs))"
    by (simp add: sorted_map)
  then show ?thesis
    by (simp add: py_sorted_reverse_def sorted_wrt_rev)
qed

lemma py_sorted_reverse_stable:
  "filter (\<lambda>x. k x = c) (py_sorted_reverse k xs) = filter (\<lambda>x. k x = c) xs"
proof -
  have "filter (\<lambda>x. k x = c) (py_sorted_reverse k xs)
      = rev (filter (\<lambda>x. k x = c) (sort_key k (rev xs)))"
    by (simp add: py_sorted_reverse_def rev_filter)
  also have "\<dots> = rev (filter (\<lambda>x. k x = c) (rev xs))"
    by (simp only: sort_key_stable)
  also have "\<dots> = filter (\<lambda>x. k x = c) xs"
    by (simp add: rev_filter)
  finally show ?thesis .
qed

lemma py_sorted_reverse_mset: "mset (py_sorted_reverse k xs) = mset xs"
  by (simp add: py_sorted_reverse_def)

lemma py_sorted_reverse_length: "length (py_sorted_reverse k xs) = length xs"
  by (simp add: py_sorted_reverse_def)

lemma filter_take_prefix:
  "filter P (take n xs) = take (length (filter P (take n xs))) (filter P xs)"
proof -
  have "filter P xs = filter P (take n xs) @ filter P (drop n xs)"
    by (metis append_take_drop_id filter_append)
  then show ?thesis by simp
qed

lemma recent_generic:
  fixes k :: "'a \<Rightarrow> 'k::linorder"
  assumes "0 \<le> limit"
  shows "length (py_slice_to (py_sorted_reverse k xs) limit) = min (nat limit) (length xs)"
    and "sorted_wrt (\<lambda>a b. k b \<le> k a) (py_slice_to (py_sorted_reverse k xs) limit)"
    and "\<exists>rest. mset (py_slice_to (py_sorted_reverse k xs) limit) + mset rest = mset xs
           \<and> (\<forall>x \<in> set (py_slice_to (py_sorted_reverse k xs) limit). \<forall>y \<in> set rest. k y \<le> k x)"
    and "\<exists>m. filter (\<lambda>x. k x = c) (py_slice_to (py_sorted_reverse k xs) limit)
           = take m (filter (\<lambda>x. k x = c) xs)"
proof -
  let ?S = "py_sorted_reverse k xs"
  let ?n = "nat limit"
  have slice: "py_slice_to ?S limit = take ?n ?S"
    using assms by (simp add: py_slice_to_def)
  show "length (py_slice_to ?S limit) = min (nat limit) (length xs)"
    by (simp add: slice py_sorted_reverse_length min.commute)
  have desc: "sorted_wrt (\<lambda>a b. k b \<le> k a) ?S"
    by (rule py_sorted_reverse_descending)
  then show "sorted_wrt (\<lambda>a b. k b \<le> k a) (py_slice_to ?S limit)"
    by (simp add: slice sorted_wrt_take)
  have "sorted_wrt (\<lambda>a b. k b \<le> k a) (take ?n ?S @ drop ?n ?S)"
    using desc by simp
  then have cross: "\<forall>x \<in> set (take ?n ?S). \<forall>y \<in> set (drop ?n ?S). k y \<le> k x"
    by (simp only: sorted_wrt_append) blast
  have "mset (take ?n ?S) + mset (drop ?n ?S) = mset xs"
    by (metis append_take_drop_id mset_append py_sorted_reverse_mset)
  with cross
  show "\<exists>rest. mset (py_slice_to ?S limit) + mset rest = mset xs
           \<and> (\<forall>x \<in> set (py_slice_to ?S limit). \<forall>y \<in> set rest. k y \<le> k x)"
    unfolding slice by blast
  have "filter (\<lambda>x. k x = c) (take ?n ?S)
      = take (length (filter (\<lambda>x. k x = c) (take ?n ?S))) (filter (\<lambda>x. k x = c) ?S)"
    by (rule filter_take_prefix)
  then show "\<exists>m. filter (\<lambda>x. k x = c) (py_slice_to ?S limit)
           = take m (filter (\<lambda>x. k x = c) xs)"
    unfolding slice py_sorted_reverse_stable by blast
qed


text \<open>
  Claim C7. For a limit \<open>N\<close> that is not negative, recent activity holds the dictionaries
  of \<open>min N length\<close> videos and as many costs as \<open>min N length\<close> of theirs: sorted by
  \<open>created_at\<close> in descending order; every record left out is no newer than any record
  kept; records with the same timestamp stand in the order of the input list, and the
  ones kept are the first of them. A missing or empty \<open>created_at\<close> is read as the empty
  string, the least string. A limit of 5 on a list of 10 videos returns exactly 5.
\<close>

theorem recent_activity_newest_first:
  assumes "0 \<le> limit"
  shows "ra_videos (get_recent_activity ps limit) = map Video_to_dict (recent_videos ps limit)
   \<and> ra_costs (get_recent_activity ps limit) = map CostModel_to_dict (recent_costs ps limit)
   \<and> length (recent_videos ps limit) = min (nat limit) (length (ps_videos ps))
   \<and> sorted_wrt (\<lambda>a b. created_key (video_created_at b) \<le> created_key (video_created_at a))
        (recent_videos ps limit)
   \<and> (\<exists>rest. mset (recent_videos ps limit) + mset rest = mset (ps_videos ps)
         \<and> (\<forall>x \<in> set (recent_videos ps limit). \<forall>y \<in> set rest.
               created_key (video_created_at y) \<le> created_key (video_created_at x)))
   \<and> (\<forall>ts. \<exists>m. filter (\<lambda>v. created_key (video_created_at v) = ts) (recent_videos ps limit)
         = take m (filter (\<lambda>v. created_key (video_created_at v) = ts) (ps_videos ps)))
   \<and> length (recent_costs ps limit) = min (nat limit) (length (ps_costs ps))
   \<and> sorted_wrt (\<lambda>a b. created_key (cost_created_at b) \<le> created_key (cost_created_at a))
        (recent_costs ps limit)
   \<and> (\<exists>rest. mset (recent_costs ps limit) + mset rest = mset (ps_costs ps)
         \<and> (\<forall>x \<in> set (recent_costs ps limit). \<forall>y \<in> set rest.
               created_key (cost_created_at y) \<le> created_key (cost_created_at x)))
   \<and> (\<forall>ts. \<exists>m. filter (\<lambda>c. created_key (cost_created_at c) = ts) (recent_costs ps limit)
         = take m (filter (\<lambda>c. created_key (cost_created_at c) = ts) (ps_costs ps)))
   \<and> created_key None = [] \<and> created_key (Some []) = []
   \<and> (\<forall>created_at. created_key None \<le> created_key created_at)
   \<and> (limit = 5 \<and> length (ps_videos ps) = 10 \<longrightarrow>
         length (ra_videos (get_recent_activity ps limit)) = 5)"
proof -
  let ?kv = "\<lambda>v. created_key (video_created_at v)"
  let ?kc = "\<lambda>c. created_key (cost_created_at c)"
  note v = recent_generic [OF assms, where k = ?kv and xs = "ps_videos ps", folded recent_videos_def]
  note c = recent_generic [OF assms, where k = ?kc and xs = "ps_costs ps", folded recent_costs_def]
  have dicts: "ra_videos (get_recent_activity ps limit) = map Video_to_dict (recent_videos ps limit)"
    "ra_costs (get_recent_activity ps limit) = map CostModel_to_dict (recent_costs ps limit)"
    by (simp_all add: get_recent_activity_def)
  have stable_v: "\<forall>ts. \<exists>m. filter (\<lambda>v. ?kv v = ts) (recent_videos ps limit)
         = take m (filter (\<lambda>v. ?kv v = ts) (ps_videos ps))"
    using v(4) by blast
  have stable_c: "\<forall>ts. \<exists>m. filter (\<lambda>c. ?kc c = ts) (recent_costs ps limit)
         = take m (filter (\<lambda>c. ?kc c = ts) (ps_costs ps))"
    using c(4) by blast
  have least: "created_key None = []" "created_key (Some []) = []"
    "\<forall>created_at. created_key None \<le> created_key created_at"
    by (simp_all add: created_key_def)
  have ten: "limit = 5 \<and> length (ps_videos ps) = 10 \<longrightarrow>
         length (ra_videos (get_recent_activity ps limit)) = 5"
    using v(1) dicts(1) by auto
  from dicts v(1) v(2) v(3) stable_v c(1) c(2) c(3) stable_c least ten
  show ?thesis by blast
qed


theorem recent_activity_newest_first_witness:
  "recent_videos
      \<lparr>ps_videos =
         [\<lparr>video_id = ''a'', video_type = ''Brand'', video_status = ''VO'',
          video_created_at = Some ''2024-01-02T09:00:00'', video_updated_at = None\<rparr>,
          \<lparr>video_id = ''b'', video_type = ''Brand'', video_status = ''VO'',
          video_created_at = None, video_updated_at = None\<rparr>,
          \<lparr>video_id = ''c'', video_type = ''Brand'', video_status = ''VO'',
          video_created_at = Some ''2024-01-03T09:00:00'', video_updated_at = None\<rparr>,
          \<lparr>video_id = ''d'', video_type = ''Brand'', video_status = ''VO'',
          video_created_at = Some ''2024-01-02T09:00:00'', video_updated_at = None\<rparr>],
       ps_costs =
         [\<lparr>cost_id = Some 1, cost_type = ''Tool'', cost_amount = 50, cost_currency = ''USD'',
          cost_notes = [], cost_created_at = Some ''2024-05-01T10:00:00''\<rparr>,
          \<lparr>cost_id = Some 2, cost_type = ''Other'', cost_amount = 1000, cost_currency = ''PKR'',
          cost_notes = [], cost_created_at = Some ''2024-05-02T10:00:00''\<rparr>],
       ps_budget = 0\<rparr> 3
    = [\<lparr>video_id = ''c'', video_type = ''Brand'', video_status = ''VO'',
          video_created_at = Some ''2024-01-03T09:00:00'', video_updated_at = None\<rparr>,
       \<lparr>video_id = ''a'', video_type = ''Brand'', video_status = ''VO'',
          video_created_at = Some ''2024-01-02T09:00:00'', video_updated_at = None\<rparr>,
       \<lparr>video_id = ''d'', video_type = ''Brand'', video_status = ''VO'',
          video_created_at = Some ''2024-01-02T09:00:00'', video_updated_at = None\<rparr>]
   \<and> length (recent_videos
      \<lparr>ps_videos =
         [\<lparr>video_id = ''a'', video_type = ''Brand'', video_status = ''VO'',
          video_created_at = Some ''2024-01-02T09:00:00'', video_updated_at = None\<rparr>,
          \<lparr>video_id = ''b'', video_type = ''Brand'', video_status = ''VO'',
          video_created_at = None, video_updated_at = None\<rparr>,
          \<lparr>video_id = ''c'', video_type = ''Brand'', video_status = ''VO'',
          video_created_at = Some ''2024-01-03T09:00:00'', video_updated_at = None\<rparr>,
          \<lparr>video_id = ''d'', video_type = ''Brand'', video_status = ''VO'',
          video_created_at = Some ''2024-01-02T09:00:00'', video_updated_at = None\<rparr>],
       ps_costs =
         [\<lparr>cost_id = Some 1, cost_type = ''Tool'', cost_amount = 50, cost_currency = ''USD'',
          cost_notes = [], cost_created_at = Some ''2024-05-01T10:00:00''\<rparr>,
          \<lparr>cost_id = Some 2, cost_type = ''Other'', cost_amount = 1000, cost_currency = ''PKR'',
          cost_notes = [], cost_created_at = Some ''2024-05-02T10:00:00''\<rparr>],
       ps_budget = 0\<rparr> 3) = 3
   \<and> recent_costs
      \<lparr>ps_videos =
         [\<lparr>video_id = ''a'', video_type = ''Brand'', video_status = ''VO'',
          video_created_at = Some ''2024-01-02T09:00:00'', video_updated_at = None\<rparr>,
          \<lparr>video_id = ''b'', video_type = ''Brand'', video_status = ''VO'',
          video_created_at = None, video_updated_at = None\<rparr>,
          \<lparr>video_id = ''c'', video_type = ''Brand'', video_status = ''VO'',
          video_created_at = Some ''2024-01-03T09:00:00'', video_updated_at = None\<rparr>,
          \<lparr>video_id = ''d'', video_type = ''Brand'', video_status = ''VO'',
          video_created_at = Some ''2024-01-02T09:00:00'', video_updated_at = None\<rparr>],
       ps_costs =
         [\<lparr>cost_id = Some 1, cost_type = ''Tool'', cost_amount = 50, cost_currency = ''USD'',
          cost_notes = [], cost_created_at = Some ''2024-05-01T10:00:00''\<rparr>,
          \<lparr>cost_id = Some 2, cost_type = ''Other'', cost_amount = 1000, cost_currency = ''PKR'',
          cost_notes = [], cost_created_at = Some ''2024-05-02T10:00:00''\<rparr>],
       ps_budget = 0\<rparr> 3
    = [\<lparr>cost_id = Some 2, cost_type = ''Other'', cost_amount = 1000, cost_currency = ''PKR'',
          cost_notes = [], cost_created_at = Some ''2024-05-02T10:00:00''\<rparr>,
       \<lparr>cost_id = Some 1, cost_type = ''Tool'', cost_amount = 50, cost_currency = ''USD'',
          cost_notes = [], cost_created_at = Some ''2024-05-01T10:00:00''\<rparr>]
   \<and> length (ra_videos (get_recent_activity
        \<lparr>ps_videos = replicate 10
           \<lparr>video_id = ''a'', video_type = ''Brand'', video_status = ''VO'',
          video_created_at = Some ''2024-01-02T09:00:00'', video_updated_at = None\<rparr>,
         ps_costs = [], ps_budget = 0\<rparr> 5)) = 5"
proof -
  let ?ps = "\<lparr>ps_videos =
         [\<lparr>video_id = ''a'', video_type = ''Brand'', video_status = ''VO'',
          video_created_at = Some ''2024-01-02T09:00:00'', video_updated_at = None\<rparr>,
          \<lparr>video_id = ''b'', video_type = ''Brand'', video_status = ''VO'',
          video_created_at = None, video_updated_at = None\<rparr>,
          \<lparr>video_id = ''c'', video_type = ''Brand'', video_status = ''VO'',
          video_created_at = Some ''2024-01-03T09:00:00'', video_updated_at = None\<rparr>,
          \<lparr>video_id = ''d'', video_type = ''Brand'', video_status = ''VO'',
          video_created_at = Some ''2024-01-02T09:00:00'', video_updated_at = None\<rparr>],
       ps_costs =
         [\<lparr>cost_id = Some 1, cost_type = ''Tool'', cost_amount = 50, cost_currency = ''USD'',
          cost_notes = [], cost_created_at = Some ''2024-05-01T10:00:00''\<rparr>,
          \<lparr>cost_id = Some 2, cost_type = ''Other'', cost_amount = 1000, cost_currency = ''PKR'',
          cost_notes = [], cost_created_at = Some ''2024-05-02T10:00:00''\<rparr>],
       ps_budget = 0\<rparr>"
  let ?ten = "\<lparr>ps_videos = replicate 10
           \<lparr>video_id = ''a'', video_type = ''Brand'', video_status = ''VO'',
          video_created_at = Some ''2024-01-02T09:00:00'', video_updated_at = None\<rparr>,
         ps_costs = [], ps_budget = 0\<rparr>"
  have h3: "(0::int) \<le> 3" and h5: "(0::int) \<le> 5"
    by simp_all
  have len: "length (ps_videos ?ten) = 10"
    by simp
  from recent_activity_newest_first [OF h3, of ?ps]
  have a: "length (recent_videos ?ps 3) = 3"
    by simp
  from recent_activity_newest_first [OF h5, of ?ten] len
  have b: "length (ra_videos (get_recent_activity ?ten 5)) = 5"
    by blast
  have c: "recent_videos ?ps 3
    = [\<lparr>video_id = ''c'', video_type = ''Brand'', video_status = ''VO'',
          video_created_at = Some ''2024-01-03T09:00:00'', video_updated_at = None\<rparr>,
       \<lparr>video_id = ''a'', video_type = ''Brand'', video_status = ''VO'',
          video_created_at = Some ''2024-01-02T09:00:00'', video_updated_at = None\<rparr>,
       \<lparr>video_id = ''d'', video_type = ''Brand'', video_status = ''VO'',
          video_created_at = Some ''2024-01-02T09:00:00'', video_updated_at = None\<rparr>]"
    by (simp add: recent_videos_def py_slice_to_def py_sorted_reverse_def created_key_def)
  have d: "recent_costs ?ps 3
    = [\<lparr>cost_id = Some 2, cost_type = ''Other'', cost_amount = 1000, cost_currency = ''PKR'',
          cost_notes = [], cost_created_at = Some ''2024-05-02T10:00:00''\<rparr>,
       \<lparr>cost_id = Some 1, cost_type = ''Tool'', cost_amount = 50, cost_currency = ''USD'',
          cost_notes = [], cost_created_at = Some ''2024-05-01T10:00:00''\<rparr>]"
    by (simp add: recent_costs_def py_slice_to_def py_sorted_reverse_def created_key_def)
  from a b c d show ?thesis by blast
qed

end
